theory Spec2Isabelle
  imports Main "HOL-Library.Word"
begin

section \<open>Machine integers and errors\<close>

text \<open>
  Go's \<^verbatim>\<open>int64\<close> is a 64-bit word read in two's complement (\<open>sint\<close>): addition,
  subtraction, negation and multiplication wrap around. A \<^verbatim>\<open>float32\<close> is only ever
  passed through by the code, so it is kept as its 32-bit pattern. Go's \<^verbatim>\<open>int\<close> is taken
  with the 64 bits it has on the 64-bit platforms.
\<close>

type_synonym int64 = "64 word"
type_synonym float32 = "32 word"

text \<open>A Go \<^verbatim>\<open>error\<close> is represented by its message.\<close>

datatype error = Error string

text \<open>\<^verbatim>\<open>fmt.Errorf(prefix + "%v", err)\<close>: the message of \<open>err\<close> after the prefix.\<close>

fun Errorf :: "string \<Rightarrow> error \<Rightarrow> error" where
  "Errorf prefix (Error msg) = Error (prefix @ msg)"

text \<open>
  A call either returns, with the state it leaves behind and its result, or it panics
  (a nil pointer is dereferenced), and then the state at the moment of the panic is what a
  recovering caller can observe.
\<close>

datatype ('s, 'r) outcome = Panics 's | Returns 's 'r

text \<open>Go's integer division truncates towards zero; HOL's \<open>div\<close> rounds down.\<close>

definition quo :: "int \<Rightarrow> int \<Rightarrow> int" where
  "quo a b = (if (a < 0) = (b < 0) then \<bar>a\<bar> div \<bar>b\<bar> else - (\<bar>a\<bar> div \<bar>b\<bar>))"

definition quo64 :: "int64 \<Rightarrow> int64 \<Rightarrow> int64" where
  "quo64 a b = word_of_int (quo (sint a) (sint b))"

section \<open>The part of package time that the code uses\<close>

text \<open>
  A \<^verbatim>\<open>time.Time\<close> is an instant, counted here in nanoseconds since the Unix epoch,
  together with the location it is displayed in. A location gives, for a Unix second, the
  offset of the zone in seconds east of UTC. The count of an instant is not bounded in this
  model (Go's own counter of seconds has 64 bits), and the monotonic clock reading that
  \<^verbatim>\<open>time.Now\<close> attaches to a value is left out. A \<^verbatim>\<open>time.Duration\<close> is an
  \<^verbatim>\<open>int64\<close> count of nanoseconds, and that bound (about 292 years) is kept.
\<close>

type_synonym Location = "int \<Rightarrow> int"

datatype Time = Time (nanos: int) (loc: Location)

type_synonym time_Duration = int64

definition UTC :: Location where
  "UTC = (\<lambda>_. 0)"

definition Second :: time_Duration where
  "Second = 1000000000"

definition minDuration :: time_Duration where
  "minDuration = word_of_int (- (2 ^ 63))"

definition maxDuration :: time_Duration where
  "maxDuration = word_of_int (2 ^ 63 - 1)"

text \<open>\<^verbatim>\<open>t.Unix()\<close>: the whole seconds since the epoch, rounded down, as an int64.\<close>

definition Unix :: "Time \<Rightarrow> int64" where
  "Unix t = word_of_int (nanos t div 1000000000)"

text \<open>\<^verbatim>\<open>t.Add(d)\<close>: the instant \<open>d\<close> nanoseconds later, in the same location.\<close>

definition Add :: "Time \<Rightarrow> time_Duration \<Rightarrow> Time" where
  "Add t d = Time (nanos t + sint d) (loc t)"

text \<open>
  \<^verbatim>\<open>t.Sub(u)\<close>: the duration \<open>t - u\<close>; when it does not fit a Duration, the largest
  or the smallest Duration is returned instead.
\<close>

definition Sub :: "Time \<Rightarrow> Time \<Rightarrow> time_Duration" where
  "Sub t u =
     (let d = nanos t - nanos u
      in if d < - (2 ^ 63) then minDuration
         else if 2 ^ 63 - 1 < d then maxDuration
         else word_of_int d)"

section \<open>Time entries\<close>

text \<open>
  The struct \<^verbatim>\<open>TimeEntry\<close>. Its fields \<^verbatim>\<open>Stop\<close> and \<^verbatim>\<open>Start\<close> are pointers
  to a time and \<^verbatim>\<open>Tags\<close> is a slice. The record is used at two levels: in a
  \<open>TimeEntry\<close> a pointer is represented by the time it points to (\<open>None\<close> is nil) and
  the slice by the list of its elements (a nil slice and an empty one are both \<open>[]\<close>);
  in a \<open>TimeEntry_mem\<close>, used for \<^verbatim>\<open>Copy\<close>, the pointers are addresses and the slice
  is a window on an array in memory.
\<close>

record ('p, 's) TimeEntry_rep =
  Wid :: int64
  ID :: int64
  Pid :: int64
  Tid :: int64
  Description :: string
  Stop :: "'p option"
  Start :: "'p option"
  Tags :: 's
  Duration :: int64
  DurOnly :: bool
  Billable :: float32

type_synonym TimeEntry = "(Time, string list) TimeEntry_rep"

text \<open>The zero value \<^verbatim>\<open>TimeEntry{}\<close>.\<close>

definition TimeEntry_zero :: TimeEntry where
  "TimeEntry_zero =
     \<lparr>Wid = 0, ID = 0, Pid = 0, Tid = 0, Description = [], Stop = None, Start = None,
      Tags = [], Duration = 0, DurOnly = False, Billable = 0\<rparr>"

definition IsRunning :: "TimeEntry \<Rightarrow> bool" where
  "IsRunning e = (sint (Duration e) < 0)"

definition SetDuration :: "TimeEntry \<Rightarrow> int64 \<Rightarrow> (TimeEntry, error option) outcome" where
  "SetDuration e duration =
     (if IsRunning e then Returns e (Some (Error ''TimeEntry must be stopped''))
      else
        let e = e\<lparr>Duration := duration\<rparr>
        in case Start e of
             None \<Rightarrow> Panics e
           | Some start \<Rightarrow>
               let newStop = Add start (duration * Second)
               in Returns (e\<lparr>Stop := Some newStop\<rparr>) None)"

definition SetStartTime :: "TimeEntry \<Rightarrow> Time \<Rightarrow> bool \<Rightarrow> (TimeEntry, unit) outcome" where
  "SetStartTime e start updateEnd =
     (let e = e\<lparr>Start := Some start\<rparr>
      in if \<not> IsRunning e then
           (if updateEnd then
              let newStop = Add start (Duration e * Second)
              in Returns (e\<lparr>Stop := Some newStop\<rparr>) ()
            else
              case Stop e of
                None \<Rightarrow> Panics e
              | Some stop \<Rightarrow> Returns (e\<lparr>Duration := Unix stop - Unix start\<rparr>) ())
         else Returns e ())"

definition SetStopTime :: "TimeEntry \<Rightarrow> Time \<Rightarrow> (TimeEntry, error option) outcome" where
  "SetStopTime e stop =
     (if IsRunning e then Returns e (Some (Error ''TimeEntry must be stopped''))
      else
        let e = e\<lparr>Stop := Some stop\<rparr>
        in case Start e of
             None \<Rightarrow> Panics e
           | Some start \<Rightarrow> Returns (e\<lparr>Duration := quo64 (Sub stop start) Second\<rparr>) None)"

text \<open>
  \<^verbatim>\<open>Copy\<close> on values: \<^verbatim>\<open>make([]string, n)\<close> gives a slice of empty strings, \<^verbatim>\<open>copy\<close> overwrites
  as many elements as both slices have, and a pointer that is not nil is replaced by
  the address of what it points to.
\<close>

definition make_strings :: "nat \<Rightarrow> string list" where
  "make_strings n = replicate n []"

definition copy :: "string list \<Rightarrow> string list \<Rightarrow> string list" where
  "copy dst src = (let n = min (length dst) (length src) in take n src @ drop n dst)"

definition Copy :: "TimeEntry \<Rightarrow> TimeEntry" where
  "Copy e =
     (let newEntry = e;
          newEntry = newEntry\<lparr>Tags := make_strings (length (Tags e))\<rparr>;
          newEntry = newEntry\<lparr>Tags := copy (Tags newEntry) (Tags e)\<rparr>;
          newEntry = (case Start e of None \<Rightarrow> newEntry | Some t \<Rightarrow> newEntry\<lparr>Start := Some t\<rparr>);
          newEntry = (case Stop e of None \<Rightarrow> newEntry | Some t \<Rightarrow> newEntry\<lparr>Stop := Some t\<rparr>)
      in newEntry)"

section \<open>Decimal numbers and dates\<close>

definition digit :: "nat \<Rightarrow> char" where
  "digit d = ''0123456789'' ! d"

function showNat :: "nat \<Rightarrow> string" where
  "showNat n = (if n < 10 then [digit n] else showNat (n div 10) @ [digit (n mod 10)])"
  by pat_completeness auto
termination
  by (relation "measure id") auto

declare showNat.simps [simp del]

text \<open>The verbs \<^verbatim>\<open>%d\<close> and \<^verbatim>\<open>%v\<close> of package fmt on an integer.\<close>

definition Sprint_d :: "int \<Rightarrow> string" where
  "Sprint_d i = (if i < 0 then ''-'' @ showNat (nat (- i)) else showNat (nat i))"

text \<open>
  \<^verbatim>\<open>appendInt\<close> of package time: the sign, then the digits padded with zeros to the
  width.
\<close>

definition appendInt :: "int \<Rightarrow> nat \<Rightarrow> string" where
  "appendInt x width =
     (let ds = showNat (nat \<bar>x\<bar>)
      in (if x < 0 then ''-'' else []) @ replicate (width - length ds) CHR ''0'' @ ds)"

text \<open>
  Year, month and day of a day counted from 1 January 1970 in the proleptic Gregorian
  calendar, which is the calendar of package time.
\<close>

definition civil :: "int \<Rightarrow> int \<times> int \<times> int" where
  "civil days =
     (let z = days + 719468;
          era = z div 146097;
          doe = z - era * 146097;
          yoe = (doe - doe div 1460 + doe div 36524 - doe div 146096) div 365;
          doy = doe - (365 * yoe + yoe div 4 - yoe div 100);
          mp = (5 * doy + 2) div 153;
          d = doy - (153 * mp + 2) div 5 + 1;
          m = (if mp < 10 then mp + 3 else mp - 9);
          y = yoe + era * 400 + (if m \<le> 2 then 1 else 0)
      in (y, m, d))"

text \<open>\<^verbatim>\<open>t.Date()\<close>: the date of the instant on the clock of its location.\<close>

definition Date :: "Time \<Rightarrow> int \<times> int \<times> int" where
  "Date t =
     (let unix = nanos t div 1000000000
      in civil ((unix + loc t unix) div 86400))"

text \<open>\<^verbatim>\<open>t.Format("2006-01-02")\<close>.\<close>

definition Format_2006_01_02 :: "Time \<Rightarrow> string" where
  "Format_2006_01_02 t =
     (case Date t of (y, m, d) \<Rightarrow> appendInt y 4 @ ''-'' @ appendInt m 2 @ ''-'' @ appendInt d 2)"

section \<open>JSON documents\<close>

text \<open>
  A JSON document is kept as its structure; a number is kept as its literal. The bytes
  of a response are either such a document or text that \<^verbatim>\<open>json.Unmarshal\<close> rejects
  with a syntax error.
\<close>

datatype json =
    JNull
  | JBool bool
  | JNumber string
  | JString string
  | JArray "json list"
  | JObject "(string \<times> json) list"

datatype bytes = Malformed error | Document json

fun kind :: "json \<Rightarrow> string" where
  "kind JNull = ''null''"
| "kind (JBool _) = ''bool''"
| "kind (JNumber _) = ''number''"
| "kind (JString _) = ''string''"
| "kind (JArray _) = ''array''"
| "kind (JObject _) = ''object''"

definition UnmarshalTypeError :: "json \<Rightarrow> string \<Rightarrow> error" where
  "UnmarshalTypeError j ty =
     Error (''json: cannot unmarshal '' @ kind j @ '' into Go value of type '' @ ty)"

text \<open>The first error of a list of steps, as Go's early returns give it.\<close>

fun mapE :: "('a \<Rightarrow> error + 'b) \<Rightarrow> 'a list \<Rightarrow> error + 'b list" where
  "mapE f [] = Inr []"
| "mapE f (x # xs) =
     (case f x of
        Inl err \<Rightarrow> Inl err
      | Inr y \<Rightarrow> (case mapE f xs of Inl err \<Rightarrow> Inl err | Inr ys \<Rightarrow> Inr (y # ys)))"

fun foldE :: "('s \<Rightarrow> 'a \<Rightarrow> error + 's) \<Rightarrow> 's \<Rightarrow> 'a list \<Rightarrow> error + 's" where
  "foldE f s [] = Inr s"
| "foldE f s (x # xs) = (case f s x of Inl err \<Rightarrow> Inl err | Inr s' \<Rightarrow> foldE f s' xs)"

text \<open>Reading the literal of an integer: an optional minus sign and decimal digits.\<close>

definition digitval :: "char \<Rightarrow> nat option" where
  "digitval c =
     (let n = (of_char c :: nat)
      in if 48 \<le> n \<and> n \<le> 57 then Some (n - 48) else None)"

fun readNat :: "nat \<Rightarrow> string \<Rightarrow> nat option" where
  "readNat acc [] = Some acc"
| "readNat acc (c # cs) =
     (case digitval c of None \<Rightarrow> None | Some d \<Rightarrow> readNat (10 * acc + d) cs)"

definition ParseInt :: "string \<Rightarrow> int option" where
  "ParseInt s =
     (case s of
        [] \<Rightarrow> None
      | c # cs \<Rightarrow>
          if c = CHR ''-'' then
            (if cs = [] then None else map_option (\<lambda>n. - int n) (readNat 0 cs))
          else map_option int (readNat 0 s))"

section \<open>The surroundings of the package\<close>

text \<open>
  The values that the code hands to \<^verbatim>\<open>post\<close> and \<^verbatim>\<open>put\<close> as
  \<^verbatim>\<open>interface{}\<close>: strings, numbers, booleans, tags, a time entry, and maps from
  strings to such values, written in the order of the map literal.
\<close>

datatype go_value =
    VString string
  | VInt int64
  | VBool bool
  | VFloat32 float32
  | VStrings "string list"
  | VTimeEntry TimeEntry
  | VMap "(string \<times> go_value) list"

text \<open>One call of \<^verbatim>\<open>post\<close>, \<^verbatim>\<open>put\<close> or \<^verbatim>\<open>delete\<close>.\<close>

record call =
  call_method :: string
  call_url :: string
  call_data :: "go_value option"

text \<open>
  What the package takes from outside. \<^verbatim>\<open>AppName\<close> is the package variable;
  \<^verbatim>\<open>time_Local\<close> is the local time zone; \<^verbatim>\<open>time_Now n\<close> is what the clock shows at
  its \<open>n\<close>-th reading. The calls \<^verbatim>\<open>post\<close>, \<^verbatim>\<open>put\<close> and \<^verbatim>\<open>delete\<close> marshal their
  data and talk to the service through package net/http: \<^verbatim>\<open>transport\<close> stands for
  all of that and gives the bytes and the error of a call from the call and the calls
  before it. The remaining fields are functions of the standard library whose result is
  a text or is read from a text: \<^verbatim>\<open>time.Parse\<close> for a layout and a string,
  \<^verbatim>\<open>Time.MarshalJSON\<close> (the text between the quotes), the string that
  \<^verbatim>\<open>json.Marshal\<close> writes and \<^verbatim>\<open>json.Unmarshal\<close> reads back for a Go string
  (the string itself when it is valid UTF-8), and the literal that is written for a
  float32 and the float32 that is read from a literal.
\<close>

record env =
  AppName :: string
  time_Local :: Location
  time_Now :: "nat \<Rightarrow> Time"
  transport :: "call list \<Rightarrow> call \<Rightarrow> bytes \<times> error option"
  time_Parse :: "string \<Rightarrow> string \<Rightarrow> error + Time"
  time_MarshalJSON :: "Time \<Rightarrow> error + string"
  ToValidUTF8 :: "string \<Rightarrow> string"
  FormatFloat32 :: "float32 \<Rightarrow> string"
  ParseFloat32 :: "string \<Rightarrow> error + float32"

text \<open>The state that the calls change: the calls made so far and the clock readings.\<close>

record world =
  calls :: "call list"
  clock_reads :: nat

definition Now :: "env \<Rightarrow> world \<Rightarrow> Time \<times> world" where
  "Now env w = (time_Now env (clock_reads w), w\<lparr>clock_reads := Suc (clock_reads w)\<rparr>)"

text \<open>\<^verbatim>\<open>t.Local()\<close>: the same instant in the local time zone.\<close>

definition Local :: "env \<Rightarrow> Time \<Rightarrow> Time" where
  "Local env t = Time (nanos t) (time_Local env)"

definition TogglAPI :: string where
  "TogglAPI = ''https://toggl.com/api/v8''"

definition request ::
  "env \<Rightarrow> string \<Rightarrow> string \<Rightarrow> go_value option \<Rightarrow> world \<Rightarrow> (bytes \<times> error option) \<times> world" where
  "request env method requestURL data w =
     (let c = \<lparr>call_method = method, call_url = requestURL, call_data = data\<rparr>
      in (transport env (calls w) c, w\<lparr>calls := calls w @ [c]\<rparr>))"

definition post ::
  "env \<Rightarrow> string \<Rightarrow> string \<Rightarrow> go_value option \<Rightarrow> world \<Rightarrow> (bytes \<times> error option) \<times> world" where
  "post env requestURL path data w = request env ''POST'' (requestURL @ path) data w"

definition put ::
  "env \<Rightarrow> string \<Rightarrow> string \<Rightarrow> go_value option \<Rightarrow> world \<Rightarrow> (bytes \<times> error option) \<times> world" where
  "put env requestURL path data w = request env ''PUT'' (requestURL @ path) data w"

definition delete ::
  "env \<Rightarrow> string \<Rightarrow> string \<Rightarrow> world \<Rightarrow> (bytes \<times> error option) \<times> world" where
  "delete env requestURL path w = request env ''DELETE'' (requestURL @ path) None w"

section \<open>Decoding a time entry\<close>

text \<open>
  \<^verbatim>\<open>tempTimeEntry\<close>: the embedded entry, and the two strings that take the keys
  \<^verbatim>\<open>stop\<close> and \<^verbatim>\<open>start\<close> away from the embedded fields of the same keys.
\<close>

record tempTimeEntry =
  embeddedTimeEntry :: TimeEntry
  Stop_string :: string
  Start_string :: string

definition tempTimeEntry_zero :: tempTimeEntry where
  "tempTimeEntry_zero =
     \<lparr>embeddedTimeEntry = TimeEntry_zero, Stop_string = [], Start_string = []\<rparr>"

definition parseTime :: "env \<Rightarrow> string \<Rightarrow> error + Time" where
  "parseTime env s =
     (case time_Parse env ''2006-01-02T15:04:05Z'' s of
        Inr t \<Rightarrow> Inr t
      | Inl err \<Rightarrow> time_Parse env ''2006-01-02T15:04:05-07:00'' s)"

definition asTimeEntry :: "env \<Rightarrow> tempTimeEntry \<Rightarrow> TimeEntry \<times> error option" where
  "asTimeEntry env t =
     (let entry = embeddedTimeEntry t
      in case (if Start_string t \<noteq> [] then
                 (case parseTime env (Start_string t) of
                    Inl err \<Rightarrow> Inl (entry, err)
                  | Inr start \<Rightarrow> Inr (entry\<lparr>Start := Some start\<rparr>))
               else Inr entry) of
           Inl (entry, err) \<Rightarrow> (entry, Some err)
         | Inr entry \<Rightarrow>
             if Stop_string t \<noteq> [] then
               (case parseTime env (Stop_string t) of
                  Inl err \<Rightarrow> (entry, Some err)
                | Inr stop \<Rightarrow> (entry\<lparr>Stop := Some stop\<rparr>, None))
             else (entry, None))"

text \<open>
  \<^verbatim>\<open>json.Unmarshal\<close> on the fields of \<^verbatim>\<open>tempTimeEntry\<close>, after the documentation
  of package encoding/json: \<^verbatim>\<open>null\<close> leaves a field as it is (a slice becomes nil), a
  value of another kind than the field's, or an integer out of range, is an error, and
  a key that no field has is skipped. Keys are compared as they are written, which is
  how \<^verbatim>\<open>json.Marshal\<close> writes them; \<^verbatim>\<open>json.Unmarshal\<close> also takes a key that
  differs from the tag only in the case of its letters, and a document with such a key
  is outside this model.
\<close>

fun unmarshal_string :: "json \<Rightarrow> string \<Rightarrow> error + string" where
  "unmarshal_string JNull cur = Inr cur"
| "unmarshal_string (JString s) cur = Inr s"
| "unmarshal_string j cur = Inl (UnmarshalTypeError j ''string'')"

fun unmarshal_int :: "string \<Rightarrow> json \<Rightarrow> int64 \<Rightarrow> error + int64" where
  "unmarshal_int ty JNull cur = Inr cur"
| "unmarshal_int ty (JNumber lit) cur =
     (case ParseInt lit of
        None \<Rightarrow> Inl (UnmarshalTypeError (JNumber lit) ty)
      | Some z \<Rightarrow>
          if - (2 ^ 63) \<le> z \<and> z < 2 ^ 63 then Inr (word_of_int z)
          else Inl (UnmarshalTypeError (JNumber lit) ty))"
| "unmarshal_int ty j cur = Inl (UnmarshalTypeError j ty)"

fun unmarshal_bool :: "json \<Rightarrow> bool \<Rightarrow> error + bool" where
  "unmarshal_bool JNull cur = Inr cur"
| "unmarshal_bool (JBool b) cur = Inr b"
| "unmarshal_bool j cur = Inl (UnmarshalTypeError j ''bool'')"

fun unmarshal_float32 :: "env \<Rightarrow> json \<Rightarrow> float32 \<Rightarrow> error + float32" where
  "unmarshal_float32 env JNull cur = Inr cur"
| "unmarshal_float32 env (JNumber lit) cur =
     (case ParseFloat32 env lit of
        Inl err \<Rightarrow> Inl (UnmarshalTypeError (JNumber lit) ''float32'')
      | Inr f \<Rightarrow> Inr f)"
| "unmarshal_float32 env j cur = Inl (UnmarshalTypeError j ''float32'')"

fun unmarshal_strings :: "json \<Rightarrow> string list \<Rightarrow> error + string list" where
  "unmarshal_strings JNull cur = Inr []"
| "unmarshal_strings (JArray js) cur = mapE (\<lambda>j. unmarshal_string j []) js"
| "unmarshal_strings j cur = Inl (UnmarshalTypeError j ''[]string'')"

definition setField :: "env \<Rightarrow> tempTimeEntry \<Rightarrow> string \<times> json \<Rightarrow> error + tempTimeEntry" where
  "setField env t member =
     (case member of (key, v) \<Rightarrow>
        let e = embeddedTimeEntry t
        in if key = ''wid'' then
             map_sum id (\<lambda>x. t\<lparr>embeddedTimeEntry := e\<lparr>Wid := x\<rparr>\<rparr>) (unmarshal_int ''int'' v (Wid e))
           else if key = ''id'' then
             map_sum id (\<lambda>x. t\<lparr>embeddedTimeEntry := e\<lparr>ID := x\<rparr>\<rparr>) (unmarshal_int ''int'' v (ID e))
           else if key = ''pid'' then
             map_sum id (\<lambda>x. t\<lparr>embeddedTimeEntry := e\<lparr>Pid := x\<rparr>\<rparr>) (unmarshal_int ''int'' v (Pid e))
           else if key = ''tid'' then
             map_sum id (\<lambda>x. t\<lparr>embeddedTimeEntry := e\<lparr>Tid := x\<rparr>\<rparr>) (unmarshal_int ''int'' v (Tid e))
           else if key = ''description'' then
             map_sum id (\<lambda>x. t\<lparr>embeddedTimeEntry := e\<lparr>Description := x\<rparr>\<rparr>)
               (unmarshal_string v (Description e))
           else if key = ''stop'' then
             map_sum id (\<lambda>x. t\<lparr>Stop_string := x\<rparr>) (unmarshal_string v (Stop_string t))
           else if key = ''start'' then
             map_sum id (\<lambda>x. t\<lparr>Start_string := x\<rparr>) (unmarshal_string v (Start_string t))
           else if key = ''tags'' then
             map_sum id (\<lambda>x. t\<lparr>embeddedTimeEntry := e\<lparr>Tags := x\<rparr>\<rparr>) (unmarshal_strings v (Tags e))
           else if key = ''duration'' then
             map_sum id (\<lambda>x. t\<lparr>embeddedTimeEntry := e\<lparr>Duration := x\<rparr>\<rparr>)
               (unmarshal_int ''int64'' v (Duration e))
           else if key = ''duronly'' then
             map_sum id (\<lambda>x. t\<lparr>embeddedTimeEntry := e\<lparr>DurOnly := x\<rparr>\<rparr>) (unmarshal_bool v (DurOnly e))
           else if key = ''billable'' then
             map_sum id (\<lambda>x. t\<lparr>embeddedTimeEntry := e\<lparr>Billable := x\<rparr>\<rparr>)
               (unmarshal_float32 env v (Billable e))
           else Inr t)"

fun Unmarshal_tempTimeEntry :: "env \<Rightarrow> bytes \<Rightarrow> tempTimeEntry \<Rightarrow> error + tempTimeEntry" where
  "Unmarshal_tempTimeEntry env (Malformed err) t = Inl err"
| "Unmarshal_tempTimeEntry env (Document JNull) t = Inr t"
| "Unmarshal_tempTimeEntry env (Document (JObject members)) t = foldE (setField env) t members"
| "Unmarshal_tempTimeEntry env (Document j) t = Inl (UnmarshalTypeError j ''toggl.tempTimeEntry'')"

text \<open>
  \<^verbatim>\<open>UnmarshalJSON\<close>: the entry that the receiver points to afterwards, and the error.
\<close>

definition UnmarshalJSON :: "env \<Rightarrow> TimeEntry \<Rightarrow> bytes \<Rightarrow> TimeEntry \<times> error option" where
  "UnmarshalJSON env e b =
     (let entry = tempTimeEntry_zero
      in case Unmarshal_tempTimeEntry env b entry of
           Inl err \<Rightarrow> (e, Some err)
         | Inr entry \<Rightarrow>
             (case asTimeEntry env entry of
                (te, Some err) \<Rightarrow> (e, Some err)
              | (te, None) \<Rightarrow> (te, None)))"

text \<open>
  \<^verbatim>\<open>json.Unmarshal\<close> into the struct with the one field \<^verbatim>\<open>Data\<close> of
  \<^verbatim>\<open>timeEntryRequest\<close>: each member with the key \<^verbatim>\<open>data\<close> is handed to
  \<^verbatim>\<open>UnmarshalJSON\<close>.
\<close>

definition setData :: "env \<Rightarrow> TimeEntry \<Rightarrow> string \<times> json \<Rightarrow> error + TimeEntry" where
  "setData env d member =
     (case member of (key, v) \<Rightarrow>
        if key = ''data'' then
          (case UnmarshalJSON env d (Document v) of
             (d', Some err) \<Rightarrow> Inl err
           | (d', None) \<Rightarrow> Inr d')
        else Inr d)"

fun Unmarshal_Data :: "env \<Rightarrow> bytes \<Rightarrow> TimeEntry \<Rightarrow> error + TimeEntry" where
  "Unmarshal_Data env (Malformed err) d = Inl err"
| "Unmarshal_Data env (Document JNull) d = Inr d"
| "Unmarshal_Data env (Document (JObject members)) d = foldE (setData env) d members"
| "Unmarshal_Data env (Document j) d =
     Inl (UnmarshalTypeError j ''struct { Data toggl.TimeEntry \"data\" }'')"

definition timeEntryRequest :: "env \<Rightarrow> bytes \<Rightarrow> error option \<Rightarrow> TimeEntry \<times> error option" where
  "timeEntryRequest env data err =
     (case err of
        Some e \<Rightarrow> (TimeEntry_zero, Some e)
      | None \<Rightarrow>
          (case Unmarshal_Data env data TimeEntry_zero of
             Inl e \<Rightarrow> (TimeEntry_zero, Some e)
           | Inr d \<Rightarrow> (d, None)))"

section \<open>Encoding a time entry\<close>






section \<open>Calls to the service\<close>

definition UpdateTimeEntry :: "env \<Rightarrow> TimeEntry \<Rightarrow> world \<Rightarrow> (TimeEntry \<times> error option) \<times> world" where
  "UpdateTimeEntry env timer w =
     (let data = VMap [(''time_entry'', VTimeEntry timer)];
          path = ''/time_entries/'' @ Sprint_d (sint (ID timer));
          ((respData, err), w) = post env TogglAPI path (Some data) w
      in (timeEntryRequest env respData err, w))"

definition DeleteTimeEntry :: "env \<Rightarrow> TimeEntry \<Rightarrow> world \<Rightarrow> (bytes \<times> error option) \<times> world" where
  "DeleteTimeEntry env timer w =
     (let path = ''/time_entries/'' @ Sprint_d (sint (ID timer))
      in delete env TogglAPI path w)"

text \<open>The two branches of \<^verbatim>\<open>ContinueTimeEntry\<close>, and the condition that chooses.\<close>

definition ContinueTimeEntry_extend ::
  "env \<Rightarrow> TimeEntry \<Rightarrow> world \<Rightarrow> (world, TimeEntry \<times> error option) outcome" where
  "ContinueTimeEntry_extend env timer w =
     (let entry = Copy timer;
          (now, w) = Now env w;
          entry = entry\<lparr>Duration := - (Unix now - Duration entry)\<rparr>;
          entry = entry\<lparr>DurOnly := True\<rparr>;
          data = VMap [(''time_entry'', VTimeEntry entry)];
          path = ''/time_entries/'' @ Sprint_d (sint (ID timer));
          ((respData, err), w) = put env TogglAPI path (Some data) w
      in Returns w (timeEntryRequest env respData err))"

definition ContinueTimeEntry_new ::
  "env \<Rightarrow> TimeEntry \<Rightarrow> bool \<Rightarrow> world \<Rightarrow> (world, TimeEntry \<times> error option) outcome" where
  "ContinueTimeEntry_new env timer duronly w =
     (let data = VMap [(''time_entry'', VMap
            [(''description'', VString (Description timer)),
             (''pid'', VInt (Pid timer)),
             (''tid'', VInt (Tid timer)),
             (''billable'', VFloat32 (Billable timer)),
             (''created_with'', VString (AppName env)),
             (''tags'', VStrings (Tags timer)),
             (''duronly'', VBool duronly)])];
          ((respData, err), w) = post env TogglAPI ''/time_entries/start'' (Some data) w
      in Returns w (timeEntryRequest env respData err))"

definition ContinueTimeEntry ::
  "env \<Rightarrow> TimeEntry \<Rightarrow> bool \<Rightarrow> world \<Rightarrow> (world, TimeEntry \<times> error option) outcome" where
  "ContinueTimeEntry env timer duronly w =
     (if \<not> duronly then ContinueTimeEntry_new env timer duronly w
      else
        let (now, w) = Now env w
        in case Start timer of
             None \<Rightarrow> Panics w
           | Some start \<Rightarrow>
               if Format_2006_01_02 (Local env now) = Format_2006_01_02 (Local env start)
               then ContinueTimeEntry_extend env timer w
               else ContinueTimeEntry_new env timer duronly w)"

definition UnstopTimeEntry :: "env \<Rightarrow> TimeEntry \<Rightarrow> world \<Rightarrow> (TimeEntry \<times> error option) \<times> world" where
  "UnstopTimeEntry env timer w =
     (let newEntry = TimeEntry_zero;
          data = VMap [(''time_entry'', VMap
            [(''description'', VString (Description timer)),
             (''pid'', VInt (Pid timer)),
             (''tid'', VInt (Tid timer)),
             (''billable'', VFloat32 (Billable timer)),
             (''created_with'', VString (AppName env)),
             (''tags'', VStrings (Tags timer)),
             (''duronly'', VBool (DurOnly timer))])];
          ((respData, err), w) = post env TogglAPI ''/time_entries/start'' (Some data) w
      in case err of
           Some e \<Rightarrow> ((newEntry, Some (Errorf ''New entry not started: '' e)), w)
         | None \<Rightarrow>
             (case timeEntryRequest env respData err of
                (newEntry, Some e) \<Rightarrow> ((newEntry, Some (Errorf ''New entry not valid: '' e)), w)
              | (newEntry, None) \<Rightarrow>
                  (let newEntry = newEntry\<lparr>Start := Start timer\<rparr>;
                       ((updated, err), w) = UpdateTimeEntry env newEntry w
                   in (case err of
                         Some e \<Rightarrow> ((newEntry, Some (Errorf ''New entry not updated: '' e)), w)
                       | None \<Rightarrow>
                           (let ((deleted, err), w) = DeleteTimeEntry env timer w
                            in (case err of
                                  Some e \<Rightarrow>
                                    ((newEntry, Some (Errorf ''Old entry not deleted: '' e)), w)
                                | None \<Rightarrow> ((newEntry, None), w)))))))"

section \<open>Copy in memory\<close>

text \<open>
  For the question of what a copy shares with its original, the pointers of an entry
  are addresses: memory holds the time that each allocated address of a time points
  to, and the array behind each allocated slice. A slice is a window on an array.
\<close>

type_synonym addr = nat

record slice =
  slice_array :: addr
  slice_off :: nat
  slice_len :: nat
  slice_cap :: nat

record memory =
  time_at :: "addr \<Rightarrow> Time option"
  array_at :: "addr \<Rightarrow> string list option"
  fresh :: addr

type_synonym TimeEntry_mem = "(addr, slice option) TimeEntry_rep"

definition len :: "slice option \<Rightarrow> nat" where
  "len s = (case s of None \<Rightarrow> 0 | Some sl \<Rightarrow> slice_len sl)"

text \<open>The elements that a slice shows.\<close>

definition elems :: "memory \<Rightarrow> slice option \<Rightarrow> string list" where
  "elems m s =
     (case s of
        None \<Rightarrow> []
      | Some sl \<Rightarrow>
          (case array_at m (slice_array sl) of
             None \<Rightarrow> []
           | Some xs \<Rightarrow> take (slice_len sl) (drop (slice_off sl) xs)))"

text \<open>\<^verbatim>\<open>make([]string, n)\<close>: a new array of \<open>n\<close> empty strings and the slice of all of it.\<close>

definition make_mem :: "memory \<Rightarrow> nat \<Rightarrow> memory \<times> slice option" where
  "make_mem m n =
     (let a = fresh m
      in (m\<lparr>array_at := (array_at m)(a \<mapsto> replicate n []), fresh := Suc a\<rparr>,
          Some \<lparr>slice_array = a, slice_off = 0, slice_len = n, slice_cap = n\<rparr>))"

text \<open>\<^verbatim>\<open>copy(dst, src)\<close>: the first elements of \<open>src\<close> are written into the array of \<open>dst\<close>.\<close>

definition copy_mem :: "memory \<Rightarrow> slice option \<Rightarrow> slice option \<Rightarrow> memory" where
  "copy_mem m dst src =
     (case dst of
        None \<Rightarrow> m
      | Some d \<Rightarrow>
          (case array_at m (slice_array d) of
             None \<Rightarrow> m
           | Some xs \<Rightarrow>
               let n = min (len dst) (len src);
                   xs' = take (slice_off d) xs @ take n (elems m src) @ drop (slice_off d + n) xs
               in m\<lparr>array_at := (array_at m)(slice_array d \<mapsto> xs')\<rparr>))"

text \<open>
  \<^verbatim>\<open>Copy\<close>. In Go \<^verbatim>\<open>*p\<close> denotes the variable that \<open>p\<close> points to and
  \<^verbatim>\<open>&x\<close> is the address of the variable \<open>x\<close>, so \<^verbatim>\<open>&(*e.Start)\<close> is the address
  that \<^verbatim>\<open>e.Start\<close> holds; no new variable is allocated.
\<close>

definition Copy_mem :: "memory \<Rightarrow> TimeEntry_mem \<Rightarrow> memory \<times> TimeEntry_mem" where
  "Copy_mem m e =
     (let newEntry = e;
          (m, tags) = make_mem m (len (Tags e));
          newEntry = newEntry\<lparr>Tags := tags\<rparr>;
          m = copy_mem m (Tags newEntry) (Tags e);
          newEntry = (case Start e of None \<Rightarrow> newEntry | Some p \<Rightarrow> newEntry\<lparr>Start := Some p\<rparr>);
          newEntry = (case Stop e of None \<Rightarrow> newEntry | Some p \<Rightarrow> newEntry\<lparr>Stop := Some p\<rparr>)
      in (m, newEntry))"

text \<open>The entry that is seen through the pointers of an entry in memory.\<close>

definition deref :: "memory \<Rightarrow> addr option \<Rightarrow> Time option" where
  "deref m p = (case p of None \<Rightarrow> None | Some a \<Rightarrow> time_at m a)"

definition view :: "memory \<Rightarrow> TimeEntry_mem \<Rightarrow> TimeEntry" where
  "view m e =
     \<lparr>Wid = Wid e, ID = ID e, Pid = Pid e, Tid = Tid e, Description = Description e,
      Stop = deref m (Stop e), Start = deref m (Start e), Tags = elems m (Tags e),
      Duration = Duration e, DurOnly = DurOnly e, Billable = Billable e\<rparr>"

text \<open>
  The two ways to change what an entry points to without changing the entry:
  \<^verbatim>\<open>*p = t\<close> for a pointer to a time, and \<^verbatim>\<open>s[i] = v\<close> for an index of a slice.
\<close>

definition store_time :: "memory \<Rightarrow> addr \<Rightarrow> Time \<Rightarrow> memory" where
  "store_time m p t = m\<lparr>time_at := (time_at m)(p \<mapsto> t)\<rparr>"

definition store_elem :: "memory \<Rightarrow> slice \<Rightarrow> nat \<Rightarrow> string \<Rightarrow> memory" where
  "store_elem m s i v =
     (case array_at m (slice_array s) of
        None \<Rightarrow> m
      | Some xs \<Rightarrow> m\<lparr>array_at := (array_at m)(slice_array s \<mapsto> xs[slice_off s + i := v])\<rparr>)"

text \<open>
  An entry is well formed in a memory when its pointers and the array of its slice are
  allocated there, below the next free address, and the slice lies within its array.
\<close>

definition wf_entry :: "memory \<Rightarrow> TimeEntry_mem \<Rightarrow> bool" where
  "wf_entry m e =
     ((case Start e of None \<Rightarrow> True | Some p \<Rightarrow> time_at m p \<noteq> None) \<and>
      (case Stop e of None \<Rightarrow> True | Some p \<Rightarrow> time_at m p \<noteq> None) \<and>
      (case Tags e of
         None \<Rightarrow> True
       | Some s \<Rightarrow>
           slice_array s < fresh m \<and>
           (case array_at m (slice_array s) of
              None \<Rightarrow> False
            | Some xs \<Rightarrow> slice_off s + slice_len s \<le> length xs)))"

section \<open>Panics and example entries\<close>

fun panics :: "('s, 'r) outcome \<Rightarrow> bool" where
  "panics (Panics s) = True"
| "panics (Returns s r) = False"

text \<open>The state that a call leaves behind, whether it returns or panics.\<close>

fun state_of :: "('s, 'r) outcome \<Rightarrow> 's" where
  "state_of (Panics s) = s"
| "state_of (Returns s r) = s"

text \<open>
  An entry from 09:00:00 to 10:30:00 UTC on 1 January 2024, and an entry that has been
  running since 09:00:00 of that day.
\<close>

definition stopped_entry :: TimeEntry where
  "stopped_entry =
     \<lparr>Wid = 3, ID = 7, Pid = 11, Tid = 0, Description = ''writing'',
      Stop = Some (Time 1704105000000000000 UTC), Start = Some (Time 1704099600000000000 UTC),
      Tags = [''a'', ''b''], Duration = 5400, DurOnly = False, Billable = 0\<rparr>"

definition running_entry :: TimeEntry where
  "running_entry =
     \<lparr>Wid = 3, ID = 8, Pid = 11, Tid = 0, Description = ''writing'',
      Stop = None, Start = Some (Time 1704099600000000000 UTC),
      Tags = [], Duration = - 1704099600, DurOnly = False, Billable = 0\<rparr>"

text \<open>
  Variants of the stopped entry: without a stop time, with a duration of ten thousand
  million seconds, with a start half a second after the epoch, and with the start at
  0001-01-01T00:00:00Z, the zero time of Go.
\<close>

definition no_stop_entry :: TimeEntry where
  "no_stop_entry = stopped_entry\<lparr>Stop := None\<rparr>"

definition long_entry :: TimeEntry where
  "long_entry = stopped_entry\<lparr>Duration := 10000000000\<rparr>"

text \<open>An entry that stopped 10.2 seconds after the epoch.\<close>

definition early_entry :: TimeEntry where
  "early_entry = stopped_entry\<lparr>Stop := Some (Time 10200000000 UTC), Duration := 10\<rparr>"

definition late_start_entry :: TimeEntry where
  "late_start_entry = stopped_entry\<lparr>Start := Some (Time 500000000 UTC)\<rparr>"

definition ancient_entry :: TimeEntry where
  "ancient_entry = stopped_entry\<lparr>Start := Some (Time (- 62135596800000000000) UTC)\<rparr>"

section \<open>The calls that the claims speak of\<close>

text \<open>
  The creation call: a \<^verbatim>\<open>POST\<close> to \<^verbatim>\<open>/time_entries/start\<close> of a new entry that
  carries the description, the project, the task, the billable flag and the tags of
  the given entry, the name of the application, and the given duration-only flag.
\<close>

definition start_call :: "env \<Rightarrow> TimeEntry \<Rightarrow> bool \<Rightarrow> call" where
  "start_call env timer duronly =
     \<lparr>call_method = ''POST'',
      call_url = ''https://toggl.com/api/v8/time_entries/start'',
      call_data = Some (VMap [(''time_entry'', VMap
        [(''description'', VString (Description timer)),
         (''pid'', VInt (Pid timer)),
         (''tid'', VInt (Tid timer)),
         (''billable'', VFloat32 (Billable timer)),
         (''created_with'', VString (AppName env)),
         (''tags'', VStrings (Tags timer)),
         (''duronly'', VBool duronly)])])\<rparr>"

text \<open>
  A call that sends a whole entry to \<^verbatim>\<open>/time_entries/<id>\<close>, and the
  deletion of the entry with an identifier.
\<close>

definition entry_call :: "string \<Rightarrow> int64 \<Rightarrow> TimeEntry \<Rightarrow> call" where
  "entry_call method i entry =
     \<lparr>call_method = method,
      call_url = ''https://toggl.com/api/v8/time_entries/'' @ Sprint_d (sint i),
      call_data = Some (VMap [(''time_entry'', VTimeEntry entry)])\<rparr>"

definition delete_call :: "int64 \<Rightarrow> call" where
  "delete_call i =
     \<lparr>call_method = ''DELETE'',
      call_url = ''https://toggl.com/api/v8/time_entries/'' @ Sprint_d (sint i),
      call_data = None\<rparr>"

section \<open>An example service\<close>

text \<open>
  A service of which every call but the one with the number \<open>k\<close> succeeds and answers
  with a running entry, started at 12:00:00 UTC on 1 January 2024; the call with the
  number \<open>k\<close> fails. The clock shows 11:00:00 UTC of that day and the local zone is
  UTC. The parser knows two spellings of the one instant.
\<close>

definition example_response :: bytes where
  "example_response =
     Document (JObject [(''data'', JObject
       [(''id'', JNumber ''42''), (''start'', JString ''2024-01-01T12:00:00Z''),
        (''duration'', JNumber ''-1704110400'')])])"

definition example_Parse :: "string \<Rightarrow> string \<Rightarrow> error + Time" where
  "example_Parse layout s =
     (if layout = ''2006-01-02T15:04:05Z'' \<and> s = ''2024-01-01T12:00:00Z''
      then Inr (Time 1704110400000000000 UTC)
      else if layout = ''2006-01-02T15:04:05-07:00'' \<and> s = ''2024-01-01T13:00:00+01:00''
      then Inr (Time 1704110400000000000 (\<lambda>_. 3600))
      else Inl (Error (''parsing time '' @ s)))"

definition example_env :: "nat \<Rightarrow> env" where
  "example_env k =
     \<lparr>AppName = ''go-toggl'',
      time_Local = UTC,
      time_Now = (\<lambda>n. Time (1704106800000000000 + int n) UTC),
      transport = (\<lambda>history c.
        if length history = k
        then (Malformed (Error ''unexpected end of JSON input''), Some (Error ''503 Service Unavailable''))
        else (example_response, None)),
      time_Parse = example_Parse,
      time_MarshalJSON = (\<lambda>t. Inl (Error ''Time.MarshalJSON: year outside of range [0,9999]'')),
      ToValidUTF8 = (\<lambda>s. s),
      FormatFloat32 = (\<lambda>f. ''0''),
      ParseFloat32 = (\<lambda>s. Inl (Error ''strconv.ParseFloat: invalid syntax''))\<rparr>"

definition example_world :: world where
  "example_world = \<lparr>calls = [], clock_reads = 0\<rparr>"

definition example_created :: TimeEntry where
  "example_created =
     \<lparr>Wid = 0, ID = 42, Pid = 0, Tid = 0, Description = [], Stop = None,
      Start = Some (Time 1704110400000000000 UTC),
      Tags = [], Duration = - 1704110400, DurOnly = False, Billable = 0\<rparr>"

text \<open>
  A service that answers every call with bytes that are no JSON, and the entry that
  un-stopping the stopped entry gives at the example service.
\<close>

definition garbled_env :: env where
  "garbled_env =
     (example_env 5)\<lparr>transport :=
        (\<lambda>history c. (Malformed (Error ''unexpected end of JSON input''), None))\<rparr>"

definition reopened_entry :: TimeEntry where
  "reopened_entry = example_created\<lparr>Start := Some (Time 1704099600000000000 UTC)\<rparr>"

text \<open>An entry of the evening before.\<close>

definition yesterday_entry :: TimeEntry where
  "yesterday_entry =
     stopped_entry\<lparr>Start := Some (Time 1704063600000000000 UTC),
                    Stop := Some (Time 1704067140000000000 UTC), Duration := 3540\<rparr>"

section \<open>Timestamps as the specification describes them\<close>

text \<open>
  Following the specification: a timestamp string is tried against the formats in
  order, first the one that ends in \<^verbatim>\<open>Z\<close>, then the one with a numeric offset; the
  first success is the result; the empty string is an absent time and no error; a
  string that matches neither format is an error.
\<close>

definition decode_time :: "env \<Rightarrow> string \<Rightarrow> error + Time option" where
  "decode_time env s =
     (if s = [] then Inr None
      else case time_Parse env ''2006-01-02T15:04:05Z'' s of
             Inr t \<Rightarrow> Inr (Some t)
           | Inl err1 \<Rightarrow>
               (case time_Parse env ''2006-01-02T15:04:05-07:00'' s of
                  Inr t \<Rightarrow> Inr (Some t)
                | Inl err2 \<Rightarrow> Inl err2))"

text \<open>The pointers of the embedded entry are nil.\<close>

definition no_times :: "tempTimeEntry \<Rightarrow> bool" where
  "no_times t = (Start (embeddedTimeEntry t) = None \<and> Stop (embeddedTimeEntry t) = None)"

text \<open>
  Two documents: one with a start in the format with an offset and an empty stop, and
  one with a start in neither format.
\<close>

definition offset_document :: bytes where
  "offset_document =
     Document (JObject [(''start'', JString ''2024-01-01T13:00:00+01:00''), (''stop'', JString [])])"

definition bad_document :: bytes where
  "bad_document = Document (JObject [(''start'', JString ''yesterday'')])"

section \<open>An example memory\<close>

text \<open>
  The stopped entry of the example in memory: its start at address 0, its stop time
  at address 1 and the array of its two tags at address 2.
\<close>

definition example_memory :: memory where
  "example_memory =
     \<lparr>time_at = [0 \<mapsto> Time 1704099600000000000 UTC, 1 \<mapsto> Time 1704105000000000000 UTC],
      array_at = [2 \<mapsto> [''a'', ''b'']],
      fresh = 3\<rparr>"

definition example_entry_mem :: TimeEntry_mem where
  "example_entry_mem =
     \<lparr>Wid = 3, ID = 7, Pid = 11, Tid = 0, Description = ''writing'',
      Stop = Some 1, Start = Some 0,
      Tags = Some \<lparr>slice_array = 2, slice_off = 0, slice_len = 2, slice_cap = 2\<rparr>,
      Duration = 5400, DurOnly = False, Billable = 0\<rparr>"

section \<open>Times that are written and read back\<close>



section \<open>An example codec\<close>







section \<open>Facts about the arithmetic\<close>

lemma sint_of_int_eq:
  "- (2 ^ 63) \<le> k \<Longrightarrow> k < 2 ^ 63 \<Longrightarrow> sint (word_of_int k :: int64) = k"
  by (simp add: sint_sbintrunc' signed_take_bit_int_eq_self)

text \<open>A number of seconds of up to about 292 years is a Duration without wrapping.\<close>

lemma sint_mult_Second:
  "- 9223372036 \<le> sint (d::int64) \<Longrightarrow> sint d \<le> 9223372036 \<Longrightarrow>
     sint (d * Second) = sint d * 1000000000"
  unfolding Second_def
  apply (simp add: sint_word_ariths)
  apply (rule signed_take_bit_int_eq_self)
   apply simp_all
  done

lemma sint_Sub:
  "sint (Sub t u) = max (- (2 ^ 63)) (min (2 ^ 63 - 1) (nanos t - nanos u))"
proof -
  let ?d = "nanos t - nanos u"
  consider "?d < - (2 ^ 63)" | "2 ^ 63 - 1 < ?d" | "- (2 ^ 63) \<le> ?d" "?d \<le> 2 ^ 63 - 1"
    by linarith
  then show ?thesis
  proof cases
    case 1
    then show ?thesis by (simp add: Sub_def minDuration_def)
  next
    case 2
    then show ?thesis by (simp add: Sub_def maxDuration_def)
  next
    case 3
    then have "sint (word_of_int ?d :: int64) = ?d"
      by (intro sint_of_int_eq) simp_all
    with 3 show ?thesis by (simp add: Sub_def Let_def del: of_int_diff)
  qed
qed

lemma quo_nonneg: "0 \<le> a \<Longrightarrow> 0 < b \<Longrightarrow> quo a b = a div b"
  by (cases "a = 0") (simp_all add: quo_def)

lemma quo_bounds:
  assumes "- (2 ^ 63) \<le> a" "a < 2 ^ 63"
  shows "- (2 ^ 63) \<le> quo a 1000000000 \<and> quo a 1000000000 < 2 ^ 63"
proof (cases "0 \<le> a")
  case True
  then have "quo a 1000000000 = a div 1000000000" by (simp add: quo_nonneg)
  moreover have "0 \<le> a div 1000000000" "a div 1000000000 \<le> a"
    using True by (cases "a = 0"; simp add: div_int_pos_iff int_div_le_self)+
  ultimately show ?thesis using assms by simp
next
  case False
  then have "quo a 1000000000 = - (\<bar>a\<bar> div 1000000000)" by (simp add: quo_def)
  moreover have "0 \<le> \<bar>a\<bar> div 1000000000" "\<bar>a\<bar> div 1000000000 \<le> \<bar>a\<bar>"
    using False by (simp_all add: div_int_pos_iff int_div_le_self)
  ultimately show ?thesis using assms False by simp
qed

lemma sint_quo64_Second: "sint (quo64 d Second) = quo (sint d) 1000000000"
proof -
  have b: "- (2 ^ 63) \<le> sint d" "sint d < 2 ^ 63"
    using sint_ge [of d] sint_lt [of d] by simp_all
  have s: "sint Second = 1000000000" by (simp add: Second_def)
  show ?thesis
    using quo_bounds [OF b] by (simp add: quo64_def s sint_of_int_eq)
qed

lemma sint_Unix_diff:
  assumes "- (2 ^ 63) \<le> nanos a div 1000000000 - nanos b div 1000000000"
    and "nanos a div 1000000000 - nanos b div 1000000000 < 2 ^ 63"
  shows "sint (Unix a - Unix b) = nanos a div 1000000000 - nanos b div 1000000000"
proof -
  have "Unix a - Unix b = (word_of_int (nanos a div 1000000000 - nanos b div 1000000000) :: int64)"
    by (simp add: Unix_def)
  then show ?thesis using assms by (simp only: sint_of_int_eq)
qed

lemma running_entry_IsRunning: "IsRunning running_entry"
  by (simp add: IsRunning_def running_entry_def)

lemma stopped_entry_not_IsRunning: "\<not> IsRunning stopped_entry"
  by (simp add: IsRunning_def stopped_entry_def)

section \<open>The mutators on a running entry\<close>

text \<open>
  C3, as the claim states it, fails: \<^verbatim>\<open>SetStartTime\<close> has no error to return; on the
  running entry of the example it returns normally and the start of the entry has
  changed.
\<close>

theorem SetStartTime_running_not_rejected:
  "IsRunning running_entry \<and>
   SetStartTime running_entry (Time 0 UTC) True =
     Returns (running_entry\<lparr>Start := Some (Time 0 UTC)\<rparr>) () \<and>
   Start (running_entry\<lparr>Start := Some (Time 0 UTC)\<rparr>) \<noteq> Start running_entry"
  by (simp add: SetStartTime_def IsRunning_def running_entry_def)

text \<open>
  C3, amended: on every running entry (its duration is negative) \<^verbatim>\<open>SetDuration\<close> and
  \<^verbatim>\<open>SetStopTime\<close> return the error "TimeEntry must be stopped" and leave the entry as
  it was; \<^verbatim>\<open>SetStartTime\<close> is not rejected: it sets the start to the new time and
  leaves every other field as it was.
\<close>

theorem running_entry_mutators:
  "IsRunning e \<Longrightarrow>
     SetDuration e d = Returns e (Some (Error ''TimeEntry must be stopped'')) \<and>
     SetStopTime e t = Returns e (Some (Error ''TimeEntry must be stopped'')) \<and>
     SetStartTime e t u = Returns (e\<lparr>Start := Some t\<rparr>) ()"
  by (simp add: SetDuration_def SetStopTime_def SetStartTime_def IsRunning_def)

theorem running_entry_mutators_witness:
  "IsRunning running_entry \<and>
   SetDuration running_entry 60 = Returns running_entry (Some (Error ''TimeEntry must be stopped'')) \<and>
   SetStopTime running_entry (Time 0 UTC) =
     Returns running_entry (Some (Error ''TimeEntry must be stopped'')) \<and>
   SetStartTime running_entry (Time 0 UTC) False =
     Returns (running_entry\<lparr>Start := Some (Time 0 UTC)\<rparr>) ()"
  using running_entry_IsRunning
    running_entry_mutators [OF running_entry_IsRunning, of 60 "Time 0 UTC" False]
  by simp

section \<open>SetStartTime\<close>

text \<open>
  C4, as the claim states it, fails at three entries that are not running. With no
  stop time and \<open>updateEnd\<close> false the call panics after it has set the start. With a
  duration of ten thousand million seconds and \<open>updateEnd\<close> true the product of the
  duration and \<^verbatim>\<open>time.Second\<close> wraps around, and the stop time is set about 268
  years before the new start instead of about 317 years after it. With a stop time
  10.2 seconds and a new start 9.9 seconds after the epoch and \<open>updateEnd\<close> false the
  duration becomes 1, the difference of the whole seconds 10 and 9, where the stop
  time minus the new start is 0.3 seconds, which is 0 in whole seconds.
\<close>

theorem SetStartTime_panic_and_overflow:
  "\<not> IsRunning no_stop_entry \<and>
   SetStartTime no_stop_entry (Time 0 UTC) False =
     Panics (no_stop_entry\<lparr>Start := Some (Time 0 UTC)\<rparr>) \<and>
   \<not> IsRunning long_entry \<and>
   SetStartTime long_entry (Time 0 UTC) True =
     Returns (long_entry\<lparr>Start := Some (Time 0 UTC),
                Stop := Some (Time (- 8446744073709551616) UTC)\<rparr>) () \<and>
   - 8446744073709551616 \<noteq> 0 + sint (Duration long_entry) * 1000000000 \<and>
   \<not> IsRunning early_entry \<and>
   Stop early_entry = Some (Time 10200000000 UTC) \<and>
   SetStartTime early_entry (Time 9900000000 UTC) False =
     Returns (early_entry\<lparr>Start := Some (Time 9900000000 UTC), Duration := 1\<rparr>) () \<and>
   (10200000000 - 9900000000) div 1000000000 = (0 :: int)"
  by (simp add: SetStartTime_def IsRunning_def no_stop_entry_def long_entry_def
      early_entry_def stopped_entry_def Add_def Second_def Unix_def)

text \<open>
  C4, amended: \<^verbatim>\<open>SetStartTime\<close> always sets the start to the new time: whatever the
  entry and \<open>updateEnd\<close> are, and whether the call returns or panics, the entry has the
  new start afterwards. On a running entry nothing else changes. On an entry that is
  not running, with \<open>updateEnd\<close> true and a duration of at most 9223372036 seconds, the
  stop time becomes the new start plus the duration and the duration stays; with
  \<open>updateEnd\<close> false and a stop time present, the duration becomes the Unix second of
  the stop time minus the Unix second of the new start, in int64 arithmetic, and the
  stop time stays. That difference is the difference of the two whole seconds, each
  rounded down, whenever it fits 64 bits.
\<close>

theorem SetStartTime_result:
  "Start (state_of (SetStartTime e t u)) = Some t \<and>
   (IsRunning e \<longrightarrow> SetStartTime e t u = Returns (e\<lparr>Start := Some t\<rparr>) ()) \<and>
   (\<not> IsRunning e \<and> sint (Duration e) \<le> 9223372036 \<longrightarrow>
      SetStartTime e t True =
        Returns (e\<lparr>Start := Some t,
                   Stop := Some (Time (nanos t + sint (Duration e) * 1000000000) (loc t))\<rparr>) ()) \<and>
   (\<not> IsRunning e \<and> Stop e = Some stop \<longrightarrow>
      SetStartTime e t False =
        Returns (e\<lparr>Start := Some t, Duration := Unix stop - Unix t\<rparr>) ()) \<and>
   (- (2 ^ 63) \<le> nanos stop div 1000000000 - nanos t div 1000000000 \<and>
    nanos stop div 1000000000 - nanos t div 1000000000 < 2 ^ 63 \<longrightarrow>
      sint (Unix stop - Unix t) = nanos stop div 1000000000 - nanos t div 1000000000)"
proof -
  have 0: "Start (state_of (SetStartTime e t u)) = Some t"
    by (simp add: SetStartTime_def Let_def split: option.splits)
  have 1: "SetStartTime e t u = Returns (e\<lparr>Start := Some t\<rparr>) ()" if "IsRunning e"
    using that by (simp add: SetStartTime_def IsRunning_def)
  have 2: "SetStartTime e t True =
        Returns (e\<lparr>Start := Some t,
                   Stop := Some (Time (nanos t + sint (Duration e) * 1000000000) (loc t))\<rparr>) ()"
    if "\<not> IsRunning e" "sint (Duration e) \<le> 9223372036"
  proof -
    have "sint (Duration e * Second) = sint (Duration e) * 1000000000"
      using that by (intro sint_mult_Second) (simp_all add: IsRunning_def)
    then show ?thesis using that by (simp add: SetStartTime_def IsRunning_def Add_def)
  qed
  have 3: "SetStartTime e t False =
        Returns (e\<lparr>Start := Some t, Duration := Unix stop - Unix t\<rparr>) ()"
    if "\<not> IsRunning e" "Stop e = Some stop"
    using that by (simp add: SetStartTime_def IsRunning_def)
  from 0 1 2 3 sint_Unix_diff [of stop t] show ?thesis by blast
qed

theorem SetStartTime_result_witness:
  "Start (state_of (SetStartTime no_stop_entry (Time 0 UTC) False)) = Some (Time 0 UTC) \<and>
   Start (state_of (SetStartTime long_entry (Time 0 UTC) True)) = Some (Time 0 UTC) \<and>
   IsRunning running_entry \<and>
   SetStartTime running_entry (Time 0 UTC) False =
     Returns (running_entry\<lparr>Start := Some (Time 0 UTC)\<rparr>) () \<and>
   \<not> IsRunning stopped_entry \<and> sint (Duration stopped_entry) \<le> 9223372036 \<and>
   SetStartTime stopped_entry (Time 1704099000000000000 UTC) True =
     Returns (stopped_entry\<lparr>Start := Some (Time 1704099000000000000 UTC),
                Stop := Some (Time 1704104400000000000 UTC)\<rparr>) () \<and>
   Stop stopped_entry = Some (Time 1704105000000000000 UTC) \<and>
   SetStartTime stopped_entry (Time 1704099000000000000 UTC) False =
     Returns (stopped_entry\<lparr>Start := Some (Time 1704099000000000000 UTC),
                Duration := 6000\<rparr>) ()"
proof -
  have s: "sint (Duration stopped_entry) \<le> 9223372036"
    "Stop stopped_entry = Some (Time 1704105000000000000 UTC)"
    by (simp_all add: stopped_entry_def)
  from running_entry_IsRunning stopped_entry_not_IsRunning s
    SetStartTime_result [of no_stop_entry "Time 0 UTC" False]
    SetStartTime_result [of long_entry "Time 0 UTC" True]
    SetStartTime_result [of running_entry "Time 0 UTC" False]
    SetStartTime_result [of stopped_entry "Time 1704099000000000000 UTC" _
      "Time 1704105000000000000 UTC"]
  show ?thesis
    by (simp add: stopped_entry_def Unix_def UTC_def)
qed

section \<open>SetStopTime\<close>

text \<open>
  C5, as the claim states it, fails twice. A stop time half a second before the start
  gives the duration 0, where rounding down gives -1: Go's division truncates. A stop
  time in 2024 for a start at Go's zero time, which is before it, gives the duration
  9223372036, where the times are 63839701800 seconds apart: \<^verbatim>\<open>Sub\<close> returns the
  largest Duration when the difference does not fit.
\<close>

theorem SetStopTime_not_floor:
  "\<not> IsRunning late_start_entry \<and>
   SetStopTime late_start_entry (Time 0 UTC) =
     Returns (late_start_entry\<lparr>Stop := Some (Time 0 UTC), Duration := 0\<rparr>) None \<and>
   (0 - 500000000) div 1000000000 = (- 1 :: int) \<and>
   \<not> IsRunning ancient_entry \<and>
   SetStopTime ancient_entry (Time 1704105000000000000 UTC) =
     Returns (ancient_entry\<lparr>Stop := Some (Time 1704105000000000000 UTC),
                Duration := 9223372036\<rparr>) None \<and>
   (1704105000000000000 - (- 62135596800000000000)) div 1000000000 = (63839701800 :: int)"
  by (simp add: SetStopTime_def IsRunning_def late_start_entry_def ancient_entry_def
      stopped_entry_def Sub_def quo64_def quo_def maxDuration_def Second_def)

text \<open>
  C5, amended: on every entry that is not running and has a start, \<^verbatim>\<open>SetStopTime\<close>
  returns no error, sets the stop time to the new one, leaves the start, and sets the
  duration to the whole seconds, truncated towards zero, of the difference in
  nanoseconds between the new stop time and the start, that difference first limited
  to the range of an int64. So when the start is not after the new stop time and they
  are less than \<open>2 ^ 63\<close> nanoseconds (about 292 years) apart, the duration is the
  difference in seconds rounded down.
\<close>

theorem SetStopTime_result:
  assumes "\<not> IsRunning e" and "Start e = Some start"
  shows "SetStopTime e stop =
           Returns (e\<lparr>Stop := Some stop, Duration := quo64 (Sub stop start) Second\<rparr>) None \<and>
         sint (quo64 (Sub stop start) Second) =
           quo (max (- (2 ^ 63)) (min (2 ^ 63 - 1) (nanos stop - nanos start))) 1000000000 \<and>
         (nanos start \<le> nanos stop \<and> nanos stop - nanos start < 2 ^ 63 \<longrightarrow>
            sint (quo64 (Sub stop start) Second) = (nanos stop - nanos start) div 1000000000)"
proof -
  have 1: "SetStopTime e stop =
           Returns (e\<lparr>Stop := Some stop, Duration := quo64 (Sub stop start) Second\<rparr>) None"
    using assms by (simp add: SetStopTime_def)
  have 2: "sint (quo64 (Sub stop start) Second) =
           quo (max (- (2 ^ 63)) (min (2 ^ 63 - 1) (nanos stop - nanos start))) 1000000000"
    by (simp only: sint_quo64_Second sint_Sub)
  have 3: "sint (quo64 (Sub stop start) Second) = (nanos stop - nanos start) div 1000000000"
    if "nanos start \<le> nanos stop" "nanos stop - nanos start < 2 ^ 63"
  proof -
    have "max (- (2 ^ 63)) (min (2 ^ 63 - 1) (nanos stop - nanos start)) =
        nanos stop - nanos start"
      using that by simp
    then show ?thesis using that by (simp only: 2) (simp add: quo_nonneg)
  qed
  from 1 2 3 show ?thesis by blast
qed

theorem SetStopTime_result_witness:
  "\<not> IsRunning stopped_entry \<and>
   Start stopped_entry = Some (Time 1704099600000000000 UTC) \<and>
   SetStopTime stopped_entry (Time 1704103200500000000 UTC) =
     Returns (stopped_entry\<lparr>Stop := Some (Time 1704103200500000000 UTC),
                Duration := quo64 (Sub (Time 1704103200500000000 UTC)
                  (Time 1704099600000000000 UTC)) Second\<rparr>) None \<and>
   sint (quo64 (Sub (Time 1704103200500000000 UTC) (Time 1704099600000000000 UTC)) Second) = 3600"
proof -
  have s: "Start stopped_entry = Some (Time 1704099600000000000 UTC)"
    by (simp add: stopped_entry_def)
  from s stopped_entry_not_IsRunning
    SetStopTime_result [OF stopped_entry_not_IsRunning s, of "Time 1704103200500000000 UTC"]
  show ?thesis by simp
qed

section \<open>SetDuration\<close>

text \<open>
  C6, as the claim states it, fails for a number of seconds that is no Duration: for
  ten thousand million seconds the product with \<^verbatim>\<open>time.Second\<close> wraps around and the
  stop time is set before the start, 8446744073709551616 nanoseconds earlier.
\<close>

theorem SetDuration_overflow:
  "\<not> IsRunning stopped_entry \<and>
   Start stopped_entry = Some (Time 1704099600000000000 UTC) \<and>
   SetDuration stopped_entry 10000000000 =
     Returns (stopped_entry\<lparr>Duration := 10000000000,
                Stop := Some (Time (1704099600000000000 - 8446744073709551616) UTC)\<rparr>) None \<and>
   1704099600000000000 - 8446744073709551616 \<noteq>
     (1704099600000000000 + 10000000000 * 1000000000 :: int)"
  by (simp add: SetDuration_def IsRunning_def stopped_entry_def Add_def Second_def)

text \<open>
  C6, amended: on every entry that is not running and has a start, and for every
  number of seconds from -9223372036 to 9223372036 (the seconds that are a Duration),
  \<^verbatim>\<open>SetDuration\<close> returns no error, sets the duration to that number, sets the stop time
  to the start plus that many seconds, and leaves the start.
\<close>

theorem SetDuration_result:
  assumes "\<not> IsRunning e" and "Start e = Some start"
    and "- 9223372036 \<le> sint d" and "sint d \<le> 9223372036"
  shows "SetDuration e d =
     Returns (e\<lparr>Duration := d,
                Stop := Some (Time (nanos start + sint d * 1000000000) (loc start))\<rparr>) None"
  using assms by (simp add: SetDuration_def Add_def sint_mult_Second)

theorem SetDuration_result_witness:
  "\<not> IsRunning stopped_entry \<and>
   Start stopped_entry = Some (Time 1704099600000000000 UTC) \<and>
   - 9223372036 \<le> sint (60 :: int64) \<and> sint (60 :: int64) \<le> 9223372036 \<and>
   SetDuration stopped_entry 60 =
     Returns (stopped_entry\<lparr>Duration := 60,
                Stop := Some (Time 1704099660000000000 UTC)\<rparr>) None"
proof -
  have s: "Start stopped_entry = Some (Time 1704099600000000000 UTC)"
    by (simp add: stopped_entry_def)
  have d: "- 9223372036 \<le> sint (60 :: int64)" "sint (60 :: int64) \<le> 9223372036"
    by simp_all
  from s d stopped_entry_not_IsRunning
    SetDuration_result [OF stopped_entry_not_IsRunning s d]
  show ?thesis by simp
qed

section \<open>Facts about the calls and the examples\<close>

lemma Copy_id: "Copy e = e"
  by (simp add: Copy_def make_strings_def copy_def Let_def split: option.splits)

lemma request_eq:
  "request env m u d w =
     (transport env (calls w) \<lparr>call_method = m, call_url = u, call_data = d\<rparr>,
      w\<lparr>calls := calls w @ [\<lparr>call_method = m, call_url = u, call_data = d\<rparr>]\<rparr>)"
  by (simp add: request_def Let_def)

lemma ContinueTimeEntry_extend_eq:
  "ContinueTimeEntry_extend env timer w =
     (let c = entry_call ''PUT'' (ID timer)
                (timer\<lparr>Duration := - (Unix (time_Now env (clock_reads w)) - Duration timer),
                        DurOnly := True\<rparr>);
          r = transport env (calls w) c
      in Returns \<lparr>calls = calls w @ [c], clock_reads = Suc (clock_reads w)\<rparr>
           (timeEntryRequest env (fst r) (snd r)))"
  by (simp add: ContinueTimeEntry_extend_def Copy_id Now_def put_def request_eq entry_call_def
      TogglAPI_def Let_def split: prod.splits)

lemma ContinueTimeEntry_new_eq:
  "ContinueTimeEntry_new env timer duronly w =
     (let c = start_call env timer duronly;
          r = transport env (calls w) c
      in Returns \<lparr>calls = calls w @ [c], clock_reads = clock_reads w\<rparr>
           (timeEntryRequest env (fst r) (snd r)))"
  by (simp add: ContinueTimeEntry_new_def post_def request_eq start_call_def
      TogglAPI_def Let_def split: prod.splits)

lemma panics_extend: "\<not> panics (ContinueTimeEntry_extend env timer w)"
  by (simp add: ContinueTimeEntry_extend_eq Let_def)

lemma panics_new: "\<not> panics (ContinueTimeEntry_new env timer duronly w)"
  by (simp add: ContinueTimeEntry_new_eq Let_def)

lemma ParseInt_42: "ParseInt ''42'' = Some 42"
  by (simp add: ParseInt_def digitval_def)

lemma ParseInt_dur: "ParseInt ''-1704110400'' = Some (- 1704110400)"
  by (simp add: ParseInt_def digitval_def)

lemma example_decoded:
  "timeEntryRequest (example_env k) example_response None = (example_created, None)"
  by (simp add: timeEntryRequest_def example_response_def setData_def UnmarshalJSON_def
      setField_def tempTimeEntry_zero_def TimeEntry_zero_def asTimeEntry_def parseTime_def
      example_env_def example_Parse_def example_created_def ParseInt_42 ParseInt_dur Let_def)

lemma date_of_now: "Format_2006_01_02 (Time 1704106800000000000 UTC) = ''2024-01-01''"
  by code_simp

lemma date_of_stopped_entry: "Format_2006_01_02 (Time 1704099600000000000 UTC) = ''2024-01-01''"
  by code_simp

lemma date_of_yesterday_entry: "Format_2006_01_02 (Time 1704063600000000000 UTC) = ''2023-12-31''"
  by code_simp

section \<open>ContinueTimeEntry\<close>

text \<open>
  C1: for every time entry with a start time (stopped or not),
  \<^verbatim>\<open>ContinueTimeEntry\<close> extends the entry exactly when \<open>duronly\<close> is true and the
  clock, read once, shows the same date in the local zone as the start of the entry.
  It then reads the clock again and makes one call: a \<^verbatim>\<open>PUT\<close> to the identifier of
  the entry, of the entry with its duration set to \<open>- (now - duration)\<close>, in Unix
  seconds, and its duration-only flag set. In every other case, also for an entry of
  another day with \<open>duronly\<close> true, it makes the creation call instead, with the
  \<open>duronly\<close> it was given. Either way it returns what the answer decodes to.
\<close>

theorem ContinueTimeEntry_branches:
  assumes "Start timer = Some start"
  shows "ContinueTimeEntry env timer duronly w =
     (if duronly \<and>
         Format_2006_01_02 (Local env (time_Now env (clock_reads w))) =
           Format_2006_01_02 (Local env start)
      then
        let c = entry_call ''PUT'' (ID timer)
                  (timer\<lparr>Duration := - (Unix (time_Now env (Suc (clock_reads w))) - Duration timer),
                          DurOnly := True\<rparr>);
            r = transport env (calls w) c
        in Returns \<lparr>calls = calls w @ [c], clock_reads = clock_reads w + 2\<rparr>
             (timeEntryRequest env (fst r) (snd r))
      else
        let c = start_call env timer duronly;
            r = transport env (calls w) c
        in Returns \<lparr>calls = calls w @ [c],
                     clock_reads = (if duronly then clock_reads w + 1 else clock_reads w)\<rparr>
             (timeEntryRequest env (fst r) (snd r)))"
  using assms
  by (simp add: ContinueTimeEntry_def ContinueTimeEntry_extend_eq ContinueTimeEntry_new_eq
      Now_def Let_def)

theorem ContinueTimeEntry_branches_witness:
  "Start stopped_entry = Some (Time 1704099600000000000 UTC) \<and>
   ContinueTimeEntry (example_env 5) stopped_entry True example_world =
     Returns \<lparr>calls = [entry_call ''PUT'' 7 (stopped_entry\<lparr>Duration := - 1704101400, DurOnly := True\<rparr>)],
              clock_reads = 2\<rparr> (example_created, None) \<and>
   Start yesterday_entry = Some (Time 1704063600000000000 UTC) \<and>
   ContinueTimeEntry (example_env 5) yesterday_entry True example_world =
     Returns \<lparr>calls = [start_call (example_env 5) yesterday_entry True], clock_reads = 1\<rparr>
       (example_created, None)"
proof -
  have s: "Start stopped_entry = Some (Time 1704099600000000000 UTC)"
    by (simp add: stopped_entry_def)
  have y: "Start yesterday_entry = Some (Time 1704063600000000000 UTC)"
    by (simp add: yesterday_entry_def)
  have now: "time_Now (example_env 5) 0 = Time 1704106800000000000 UTC"
    "time_Now (example_env 5) (Suc 0) = Time 1704106800000000001 UTC"
    "time_Local (example_env 5) = UTC"
    by (simp_all add: example_env_def)
  have tr: "transport (example_env 5) [] c = (example_response, None)" for c
    by (simp add: example_env_def)
  have i: "ID stopped_entry = 7" "Duration stopped_entry = 5400"
    by (simp_all add: stopped_entry_def)
  from s y
    ContinueTimeEntry_branches [OF s, of "example_env 5" True example_world]
    ContinueTimeEntry_branches [OF y, of "example_env 5" True example_world]
  show ?thesis
    by (simp add: example_world_def now tr Local_def date_of_now date_of_stopped_entry date_of_yesterday_entry example_decoded
        Unix_def i Let_def)
qed

section \<open>Nil pointers\<close>

text \<open>
  C10: the four operations panic on an absent time, and only then. \<^verbatim>\<open>SetDuration\<close>
  and \<^verbatim>\<open>SetStopTime\<close> panic exactly on an entry that is not running and has no
  start; \<^verbatim>\<open>SetStartTime\<close> panics exactly on an entry that is not running and has
  no stop time when \<open>updateEnd\<close> is false; \<^verbatim>\<open>ContinueTimeEntry\<close> panics exactly when
  \<open>duronly\<close> is true and the entry has no start. (A panic inside package net/http is
  outside this model.)
\<close>

theorem panics_iff:
  "(panics (SetDuration e d) \<longleftrightarrow> \<not> IsRunning e \<and> Start e = None) \<and>
   (panics (SetStartTime e t updateEnd) \<longleftrightarrow> \<not> IsRunning e \<and> \<not> updateEnd \<and> Stop e = None) \<and>
   (panics (SetStopTime e t) \<longleftrightarrow> \<not> IsRunning e \<and> Start e = None) \<and>
   (panics (ContinueTimeEntry env timer duronly w) \<longleftrightarrow> duronly \<and> Start timer = None)"
proof -
  have 1: "panics (SetDuration e d) \<longleftrightarrow> \<not> IsRunning e \<and> Start e = None"
    by (simp add: SetDuration_def Let_def split: option.splits)
  have 2: "panics (SetStartTime e t updateEnd) \<longleftrightarrow> \<not> IsRunning e \<and> \<not> updateEnd \<and> Stop e = None"
    by (simp add: SetStartTime_def IsRunning_def Let_def split: option.splits)
  have 3: "panics (SetStopTime e t) \<longleftrightarrow> \<not> IsRunning e \<and> Start e = None"
    by (simp add: SetStopTime_def Let_def split: option.splits)
  have 4: "panics (ContinueTimeEntry env timer duronly w) \<longleftrightarrow> duronly \<and> Start timer = None"
    by (simp add: ContinueTimeEntry_def panics_extend panics_new Now_def Let_def
        split: option.splits)
  from 1 2 3 4 show ?thesis by blast
qed

theorem panics_iff_witness:
  "panics (SetDuration (stopped_entry\<lparr>Start := None\<rparr>) 60) \<and>
   \<not> panics (SetDuration stopped_entry 60) \<and>
   panics (SetStartTime no_stop_entry (Time 0 UTC) False) \<and>
   \<not> panics (SetStartTime stopped_entry (Time 0 UTC) False) \<and>
   panics (SetStopTime (stopped_entry\<lparr>Start := None\<rparr>) (Time 0 UTC)) \<and>
   \<not> panics (SetStopTime stopped_entry (Time 0 UTC)) \<and>
   panics (ContinueTimeEntry (example_env 5) (stopped_entry\<lparr>Start := None\<rparr>) True example_world) \<and>
   \<not> panics (ContinueTimeEntry (example_env 5) stopped_entry True example_world)"
  using stopped_entry_not_IsRunning
    panics_iff [of "stopped_entry\<lparr>Start := None\<rparr>" 60 "Time 0 UTC" False "example_env 5"
      "stopped_entry\<lparr>Start := None\<rparr>" True example_world]
    panics_iff [of stopped_entry 60 "Time 0 UTC" False "example_env 5" stopped_entry True
      example_world]
    panics_iff [of no_stop_entry 60 "Time 0 UTC" False "example_env 5" stopped_entry True
      example_world]
  by (simp add: IsRunning_def stopped_entry_def no_stop_entry_def)

section \<open>UnstopTimeEntry\<close>

lemma UpdateTimeEntry_eq:
  "UpdateTimeEntry env timer w =
     (let c = entry_call ''POST'' (ID timer) timer;
          r = transport env (calls w) c
      in (timeEntryRequest env (fst r) (snd r), w\<lparr>calls := calls w @ [c]\<rparr>))"
  by (simp add: UpdateTimeEntry_def post_def request_eq entry_call_def TogglAPI_def Let_def
      split: prod.splits)

lemma DeleteTimeEntry_eq:
  "DeleteTimeEntry env timer w =
     (transport env (calls w) (delete_call (ID timer)),
      w\<lparr>calls := calls w @ [delete_call (ID timer)]\<rparr>)"
  by (simp add: DeleteTimeEntry_def delete_def request_eq delete_call_def TogglAPI_def Let_def)

lemma timeEntryRequest_error [simp]:
  "timeEntryRequest env data (Some e) = (TimeEntry_zero, Some e)"
  by (simp add: timeEntryRequest_def)

lemma timeEntryRequest_failed:
  "timeEntryRequest env data err = (d, Some e) \<Longrightarrow> d = TimeEntry_zero"
  by (auto simp: timeEntryRequest_def split: option.splits sum.splits)

lemma transport_example_env:
  "transport (example_env k) history c =
     (if length history = k
      then (Malformed (Error ''unexpected end of JSON input''),
            Some (Error ''503 Service Unavailable''))
      else (example_response, None))"
  by (simp add: example_env_def)

lemma garbled_decoded:
  "timeEntryRequest garbled_env (Malformed err) None = (TimeEntry_zero, Some err)"
  by (simp add: timeEntryRequest_def)

text \<open>
  C2: \<^verbatim>\<open>UnstopTimeEntry\<close> makes up to three calls, in this order: the creation call
  for a copy of the entry's description, project, task, billable flag, tags and
  duration-only flag; an update that sends the created entry with its start replaced
  by the start of the original; the deletion of the original by its identifier. It
  stops at the first step that fails, and the error it returns is the error of that
  step after a text that names the step ("New entry not started", "New entry not
  valid" when the answer to the creation does not decode, "New entry not updated",
  "Old entry not deleted"). When only the deletion fails, all three calls have been
  made, the new entry is returned with the start of the original, and the error says
  that the old entry is not deleted. With no failure the three calls are made and the
  new entry is returned without an error.
\<close>

theorem UnstopTimeEntry_steps:
  fixes env :: env and timer :: TimeEntry and w :: world
  shows
  "let create = start_call env timer (DurOnly timer);
       r1 = transport env (calls w) create;
       created = fst (timeEntryRequest env (fst r1) None);
       newEntry = created\<lparr>Start := Start timer\<rparr>;
       update = entry_call ''POST'' (ID created) newEntry;
       r2 = transport env (calls w @ [create]) update;
       delete = delete_call (ID timer);
       r3 = transport env (calls w @ [create, update]) delete
   in (\<forall>e. snd r1 = Some e \<longrightarrow>
         UnstopTimeEntry env timer w =
           ((TimeEntry_zero, Some (Errorf ''New entry not started: '' e)),
            w\<lparr>calls := calls w @ [create]\<rparr>)) \<and>
      (\<forall>e. snd r1 = None \<and> snd (timeEntryRequest env (fst r1) None) = Some e \<longrightarrow>
         UnstopTimeEntry env timer w =
           ((TimeEntry_zero, Some (Errorf ''New entry not valid: '' e)),
            w\<lparr>calls := calls w @ [create]\<rparr>)) \<and>
      (\<forall>e. snd r1 = None \<and> snd (timeEntryRequest env (fst r1) None) = None \<and>
           snd (timeEntryRequest env (fst r2) (snd r2)) = Some e \<longrightarrow>
         UnstopTimeEntry env timer w =
           ((newEntry, Some (Errorf ''New entry not updated: '' e)),
            w\<lparr>calls := calls w @ [create, update]\<rparr>)) \<and>
      (\<forall>e. snd r1 = None \<and> snd (timeEntryRequest env (fst r1) None) = None \<and>
           snd (timeEntryRequest env (fst r2) (snd r2)) = None \<and> snd r3 = Some e \<longrightarrow>
         UnstopTimeEntry env timer w =
           ((newEntry, Some (Errorf ''Old entry not deleted: '' e)),
            w\<lparr>calls := calls w @ [create, update, delete]\<rparr>) \<and>
         Start newEntry = Start timer) \<and>
      (snd r1 = None \<and> snd (timeEntryRequest env (fst r1) None) = None \<and>
           snd (timeEntryRequest env (fst r2) (snd r2)) = None \<and> snd r3 = None \<longrightarrow>
         UnstopTimeEntry env timer w =
           ((newEntry, None), w\<lparr>calls := calls w @ [create, update, delete]\<rparr>))"
proof -
  define create where "create = start_call env timer (DurOnly timer)"
  define r1 where "r1 = transport env (calls w) create"
  define created where "created = fst (timeEntryRequest env (fst r1) None)"
  define newEntry where "newEntry = created\<lparr>Start := Start timer\<rparr>"
  define update where "update = entry_call ''POST'' (ID created) newEntry"
  define r2 where "r2 = transport env (calls w @ [create]) update"
  define delete where "delete = delete_call (ID timer)"
  define r3 where "r3 = transport env (calls w @ [create, update]) delete"
  have post: "post env TogglAPI ''/time_entries/start''
      (call_data create) w = (r1, w\<lparr>calls := calls w @ [create]\<rparr>)"
    by (simp add: post_def request_eq create_def start_call_def TogglAPI_def r1_def)
  have data: "call_data create = Some (VMap [(''time_entry'', VMap
            [(''description'', VString (Description timer)),
             (''pid'', VInt (Pid timer)),
             (''tid'', VInt (Tid timer)),
             (''billable'', VFloat32 (Billable timer)),
             (''created_with'', VString (AppName env)),
             (''tags'', VStrings (Tags timer)),
             (''duronly'', VBool (DurOnly timer))])])"
    by (simp add: create_def start_call_def)
  have U: "UnstopTimeEntry env timer w =
     (case snd r1 of
        Some e \<Rightarrow> ((TimeEntry_zero, Some (Errorf ''New entry not started: '' e)),
                    w\<lparr>calls := calls w @ [create]\<rparr>)
      | None \<Rightarrow>
         (case snd (timeEntryRequest env (fst r1) None) of
            Some e \<Rightarrow> ((TimeEntry_zero, Some (Errorf ''New entry not valid: '' e)),
                        w\<lparr>calls := calls w @ [create]\<rparr>)
          | None \<Rightarrow>
             (case snd (timeEntryRequest env (fst r2) (snd r2)) of
                Some e \<Rightarrow> ((newEntry, Some (Errorf ''New entry not updated: '' e)),
                            w\<lparr>calls := calls w @ [create, update]\<rparr>)
              | None \<Rightarrow>
                 (case snd r3 of
                    Some e \<Rightarrow> ((newEntry, Some (Errorf ''Old entry not deleted: '' e)),
                                w\<lparr>calls := calls w @ [create, update, delete]\<rparr>)
                  | None \<Rightarrow> ((newEntry, None),
                              w\<lparr>calls := calls w @ [create, update, delete]\<rparr>)))))"
    unfolding UnstopTimeEntry_def data [symmetric] Let_def post
    by (auto simp: UpdateTimeEntry_eq DeleteTimeEntry_eq Let_def created_def newEntry_def
        update_def r2_def delete_def r3_def
        split: prod.splits option.splits dest: timeEntryRequest_failed)
  have S: "Start newEntry = Start timer" by (simp add: newEntry_def)
  show ?thesis
    unfolding Let_def
    unfolding create_def [symmetric] r1_def [symmetric] created_def [symmetric]
      newEntry_def [symmetric] update_def [symmetric] r2_def [symmetric]
      delete_def [symmetric] r3_def [symmetric]
    by (simp add: U S)
qed

theorem UnstopTimeEntry_steps_witness:
  "UnstopTimeEntry (example_env 0) stopped_entry example_world =
     ((TimeEntry_zero, Some (Error ''New entry not started: 503 Service Unavailable'')),
      \<lparr>calls = [start_call (example_env 0) stopped_entry False], clock_reads = 0\<rparr>) \<and>
   UnstopTimeEntry garbled_env stopped_entry example_world =
     ((TimeEntry_zero, Some (Error ''New entry not valid: unexpected end of JSON input'')),
      \<lparr>calls = [start_call garbled_env stopped_entry False], clock_reads = 0\<rparr>) \<and>
   UnstopTimeEntry (example_env 1) stopped_entry example_world =
     ((reopened_entry, Some (Error ''New entry not updated: 503 Service Unavailable'')),
      \<lparr>calls = [start_call (example_env 1) stopped_entry False,
                 entry_call ''POST'' 42 reopened_entry], clock_reads = 0\<rparr>) \<and>
   UnstopTimeEntry (example_env 2) stopped_entry example_world =
     ((reopened_entry, Some (Error ''Old entry not deleted: 503 Service Unavailable'')),
      \<lparr>calls = [start_call (example_env 2) stopped_entry False,
                 entry_call ''POST'' 42 reopened_entry, delete_call 7], clock_reads = 0\<rparr>) \<and>
   Start reopened_entry = Start stopped_entry \<and>
   UnstopTimeEntry (example_env 5) stopped_entry example_world =
     ((reopened_entry, None),
      \<lparr>calls = [start_call (example_env 5) stopped_entry False,
                 entry_call ''POST'' 42 reopened_entry, delete_call 7], clock_reads = 0\<rparr>)"
proof -
  have f: "DurOnly stopped_entry = False" "ID stopped_entry = 7"
    "Start stopped_entry = Some (Time 1704099600000000000 UTC)" "ID example_created = 42"
    by (simp_all add: stopped_entry_def example_created_def)
  have g: "transport garbled_env history c =
      (Malformed (Error ''unexpected end of JSON input''), None)" for history c
    by (simp add: garbled_env_def)
  from UnstopTimeEntry_steps [of "example_env 0" stopped_entry example_world]
    UnstopTimeEntry_steps [of garbled_env stopped_entry example_world]
    UnstopTimeEntry_steps [of "example_env 1" stopped_entry example_world]
    UnstopTimeEntry_steps [of "example_env 2" stopped_entry example_world]
    UnstopTimeEntry_steps [of "example_env 5" stopped_entry example_world]
  show ?thesis
    by (simp add: Let_def transport_example_env g example_decoded garbled_decoded f
        example_world_def reopened_entry_def)
qed

section \<open>Decoding timestamps\<close>

lemma setField_no_times:
  "setField env t member = Inr t' \<Longrightarrow> no_times t \<Longrightarrow> no_times t'"
  by (cases member) (auto simp: setField_def no_times_def Let_def map_sum_def
      split: if_splits sum.splits)

lemma foldE_setField_no_times:
  "foldE (setField env) t members = Inr t' \<Longrightarrow> no_times t \<Longrightarrow> no_times t'"
proof (induction members arbitrary: t)
  case Nil
  then show ?case by simp
next
  case (Cons m members)
  then show ?case
    by (auto split: sum.splits dest: setField_no_times)
qed

lemma Unmarshal_tempTimeEntry_no_times:
  assumes "Unmarshal_tempTimeEntry env b tempTimeEntry_zero = Inr t"
  shows "no_times t"
proof -
  have z: "no_times tempTimeEntry_zero"
    by (simp add: no_times_def tempTimeEntry_zero_def TimeEntry_zero_def)
  show ?thesis
  proof (cases b)
    case (Malformed err)
    with assms show ?thesis by simp
  next
    case (Document j)
    with assms z show ?thesis
      by (cases j) (auto dest: foldE_setField_no_times)
  qed
qed

lemma asTimeEntry_decode_time:
  assumes "no_times t"
  shows "asTimeEntry env t =
     (case decode_time env (Start_string t) of
        Inl err \<Rightarrow> (embeddedTimeEntry t, Some err)
      | Inr start \<Rightarrow>
          (case decode_time env (Stop_string t) of
             Inl err \<Rightarrow> ((embeddedTimeEntry t)\<lparr>Start := start\<rparr>, Some err)
           | Inr stop \<Rightarrow> ((embeddedTimeEntry t)\<lparr>Start := start, Stop := stop\<rparr>, None)))"
proof -
  have s: "(embeddedTimeEntry t)\<lparr>Start := None\<rparr> = embeddedTimeEntry t"
    "(embeddedTimeEntry t)\<lparr>Stop := None\<rparr> = embeddedTimeEntry t"
    "\<And>x. (embeddedTimeEntry t)\<lparr>Start := x, Stop := None\<rparr> = (embeddedTimeEntry t)\<lparr>Start := x\<rparr>"
    using assms by (simp_all add: no_times_def)
  show ?thesis
    by (simp add: asTimeEntry_def decode_time_def parseTime_def Let_def s
        split: sum.splits)
qed

text \<open>
  C9: every document that \<^verbatim>\<open>json.Unmarshal\<close> accepts for the fields is decoded by
  \<^verbatim>\<open>UnmarshalJSON\<close> as the specification describes timestamps: each of the strings
  of the keys \<^verbatim>\<open>start\<close> and \<^verbatim>\<open>stop\<close> is an absent time when it is empty, and is
  otherwise tried against the format that ends in \<^verbatim>\<open>Z\<close> and then against the format
  with a numeric offset, the first success being the time of the field. A string that
  is in neither format makes the decoding fail with the error of the parser, and the
  receiver keeps the entry it had.
\<close>

theorem timestamp_decoding:
  assumes "Unmarshal_tempTimeEntry env b tempTimeEntry_zero = Inr t"
  shows "UnmarshalJSON env e b =
     (case decode_time env (Start_string t) of
        Inl err \<Rightarrow> (e, Some err)
      | Inr start \<Rightarrow>
          (case decode_time env (Stop_string t) of
             Inl err \<Rightarrow> (e, Some err)
           | Inr stop \<Rightarrow> ((embeddedTimeEntry t)\<lparr>Start := start, Stop := stop\<rparr>, None)))"
  using assms Unmarshal_tempTimeEntry_no_times [OF assms]
  by (simp add: UnmarshalJSON_def Let_def asTimeEntry_decode_time split: sum.splits)

theorem timestamp_decoding_witness:
  "Unmarshal_tempTimeEntry (example_env 5) offset_document tempTimeEntry_zero =
     Inr (tempTimeEntry_zero\<lparr>Start_string := ''2024-01-01T13:00:00+01:00''\<rparr>) \<and>
   UnmarshalJSON (example_env 5) stopped_entry offset_document =
     (TimeEntry_zero\<lparr>Start := Some (Time 1704110400000000000 (\<lambda>_. 3600))\<rparr>, None) \<and>
   Unmarshal_tempTimeEntry (example_env 5) bad_document tempTimeEntry_zero =
     Inr (tempTimeEntry_zero\<lparr>Start_string := ''yesterday''\<rparr>) \<and>
   UnmarshalJSON (example_env 5) stopped_entry bad_document =
     (stopped_entry, Some (Error ''parsing time yesterday''))"
proof -
  have 1: "Unmarshal_tempTimeEntry (example_env 5) offset_document tempTimeEntry_zero =
     Inr (tempTimeEntry_zero\<lparr>Start_string := ''2024-01-01T13:00:00+01:00''\<rparr>)"
    by (simp add: offset_document_def setField_def tempTimeEntry_zero_def)
  have 2: "Unmarshal_tempTimeEntry (example_env 5) bad_document tempTimeEntry_zero =
     Inr (tempTimeEntry_zero\<lparr>Start_string := ''yesterday''\<rparr>)"
    by (simp add: bad_document_def setField_def tempTimeEntry_zero_def)
  have p: "time_Parse (example_env 5) = example_Parse"
    by (simp add: example_env_def)
  from 1 2 timestamp_decoding [OF 1, of stopped_entry] timestamp_decoding [OF 2, of stopped_entry]
  show ?thesis
    by (simp add: decode_time_def p example_Parse_def tempTimeEntry_zero_def TimeEntry_zero_def)
qed

section \<open>What a copy shares with its original\<close>

lemma Copy_mem_pointers:
  "Start (snd (Copy_mem m e)) = Start e \<and> Stop (snd (Copy_mem m e)) = Stop e"
  by (simp add: Copy_mem_def make_mem_def Let_def split: option.splits prod.splits)

lemma Copy_mem_Tags:
  "Tags (snd (Copy_mem m e)) =
     Some \<lparr>slice_array = fresh m, slice_off = 0, slice_len = len (Tags e), slice_cap = len (Tags e)\<rparr>"
  by (simp add: Copy_mem_def make_mem_def Let_def split: option.splits prod.splits)

lemma Copy_mem_times: "time_at (fst (Copy_mem m e)) = time_at m"
  by (simp add: Copy_mem_def make_mem_def copy_mem_def Let_def split: option.splits prod.splits)

lemma len_simps [simp]: "len None = 0" "len (Some s) = slice_len s"
  by (simp_all add: len_def)

lemma length_elems:
  "wf_entry m e \<Longrightarrow> length (elems m (Tags e)) = len (Tags e)"
  by (auto simp: wf_entry_def elems_def len_def split: option.splits)

lemma Copy_mem_arrays:
  assumes "wf_entry m e"
  shows "array_at (fst (Copy_mem m e)) = (array_at m)(fresh m \<mapsto> elems m (Tags e))"
proof -
  have 1: "elems (m\<lparr>array_at := (array_at m)(fresh m \<mapsto> xs), fresh := Suc (fresh m)\<rparr>) (Tags e) =
      elems m (Tags e)" for xs
    using assms by (auto simp: elems_def wf_entry_def split: option.splits)
  have 2: "take (len (Tags e)) (elems m (Tags e)) = elems m (Tags e)"
    using length_elems [OF assms] by simp
  show ?thesis
    by (simp add: Copy_mem_def make_mem_def copy_mem_def Let_def 1 2
        split: prod.splits)
qed

lemma elems_original:
  assumes "wf_entry m e"
  shows "elems (fst (Copy_mem m e)) (Tags e) = elems m (Tags e)"
  using assms by (auto simp: elems_def Copy_mem_arrays wf_entry_def split: option.splits)

lemma elems_copy:
  assumes "wf_entry m e"
  shows "elems (fst (Copy_mem m e)) (Tags (snd (Copy_mem m e))) = elems m (Tags e)"
  using length_elems [OF assms]
  by (simp add: elems_def Copy_mem_arrays [OF assms] Copy_mem_Tags)

lemma view_Copy_mem:
  assumes "wf_entry m e"
  shows "view (fst (Copy_mem m e)) (snd (Copy_mem m e)) = view m e \<and>
         view (fst (Copy_mem m e)) e = view m e"
proof -
  have s: "Wid (snd (Copy_mem m e)) = Wid e" "ID (snd (Copy_mem m e)) = ID e"
    "Pid (snd (Copy_mem m e)) = Pid e" "Tid (snd (Copy_mem m e)) = Tid e"
    "Description (snd (Copy_mem m e)) = Description e"
    "Duration (snd (Copy_mem m e)) = Duration e" "DurOnly (snd (Copy_mem m e)) = DurOnly e"
    "Billable (snd (Copy_mem m e)) = Billable e"
    by (simp_all add: Copy_mem_def make_mem_def Let_def split: option.splits prod.splits)
  show ?thesis
    by (simp add: view_def s Copy_mem_pointers deref_def Copy_mem_times
        elems_copy [OF assms] elems_original [OF assms] split: option.splits)
qed

lemma tags_not_shared:
  assumes "wf_entry m e"
  shows "(\<forall>s. Tags (snd (Copy_mem m e)) = Some s \<longrightarrow>
            view (store_elem (fst (Copy_mem m e)) s i v) e = view (fst (Copy_mem m e)) e) \<and>
         (\<forall>s. Tags e = Some s \<longrightarrow>
            view (store_elem (fst (Copy_mem m e)) s i v) (snd (Copy_mem m e)) =
              view (fst (Copy_mem m e)) (snd (Copy_mem m e)))"
  using assms
  by (auto simp: view_def store_elem_def deref_def elems_def Copy_mem_Tags Copy_mem_arrays
      wf_entry_def split: option.splits)

lemma start_shared:
  assumes "Start e = Some a"
  shows "Start (snd (Copy_mem m e)) = Some a \<and>
         Start (view (store_time (fst (Copy_mem m e)) a t) e) = Some t"
  using assms by (simp add: Copy_mem_pointers view_def deref_def store_time_def)

lemma ex_wf: "wf_entry example_memory example_entry_mem"
  by (simp add: wf_entry_def example_memory_def example_entry_mem_def)

text \<open>
  C7, at the entry of the example: the start of the copy is the address that the start
  of the original is, so a time stored through the start of the copy is the start that
  the original shows afterwards. (The lemmas above show what does hold for every well
  formed entry: the copy shows the same fields as the original, and its tags are in an
  array of their own.)
\<close>

theorem Copy_shares_the_times:
  "Start (snd (Copy_mem example_memory example_entry_mem)) = Start example_entry_mem \<and>
   Start (view (fst (Copy_mem example_memory example_entry_mem)) example_entry_mem) =
     Some (Time 1704099600000000000 UTC) \<and>
   Start (view (store_time (fst (Copy_mem example_memory example_entry_mem)) 0 (Time 0 UTC))
           example_entry_mem) = Some (Time 0 UTC)"
  by (simp add: Copy_mem_pointers Copy_mem_times view_def deref_def store_time_def
      example_memory_def example_entry_mem_def)

section \<open>Encoding and decoding again\<close>


































end
